theory Spec2Isabelle
  imports Main
begin

section \<open>JavaScript values used by the OTP flow\<close>

text \<open>
  Request fields, environment variables and the fields of a gateway reply are strings that
  may be absent. \<open>None\<close> stands for \<open>undefined\<close>/\<open>null\<close>. A value is truthy when it is
  a non-empty string, which is what \<open>!x\<close> and \<open>x || y\<close> test on such values.
\<close>

type_synonym jstr = "string option"

definition truthy :: "jstr \<Rightarrow> bool" where
  "truthy v = (case v of None \<Rightarrow> False | Some s \<Rightarrow> s \<noteq> [])"

definition or_else :: "jstr \<Rightarrow> jstr \<Rightarrow> jstr" where
  \<comment> \<open>\<open>a || b\<close> on two possibly absent strings\<close>
  "or_else a b = (if truthy a then a else b)"

definition or_default :: "jstr \<Rightarrow> string \<Rightarrow> string" where
  \<comment> \<open>\<open>a || 'literal'\<close>\<close>
  "or_default a d = (case a of None \<Rightarrow> d | Some s \<Rightarrow> if s = [] then d else s)"

definition startsWith :: "string \<Rightarrow> string \<Rightarrow> bool" where
  "startsWith s p = (take (length p) s = p)"

definition is_digit :: "char \<Rightarrow> bool" where
  "is_digit c = (c \<in> set ''0123456789'')"

definition strip_non_digits :: "string \<Rightarrow> string" where
  \<comment> \<open>\<open>s.replace(/\D/g, '')\<close>\<close>
  "strip_non_digits s = filter is_digit s"

definition is_space :: "char \<Rightarrow> bool" where
  \<comment> \<open>the white space and line terminators that \<open>String.prototype.trim\<close> removes,
      among the characters of the model (code units below 256): tab, line feed, vertical
      tab, form feed, carriage return, space and the no-break space U+00A0\<close>
  "is_space c = (c \<in> {CHR '' '', CHR 0x09, CHR 0x0A, CHR 0x0B, CHR 0x0C, CHR 0x0D, CHR 0xA0})"

definition trim :: "string \<Rightarrow> string" where
  "trim s = rev (dropWhile is_space (rev (dropWhile is_space s)))"

fun show_nat :: "nat \<Rightarrow> string" where
  "show_nat n =
     (if n < 10 then [''0123456789'' ! n]
      else show_nat (n div 10) @ [''0123456789'' ! (n mod 10)])"

declare show_nat.simps [simp del]

definition show_int :: "int \<Rightarrow> string" where
  \<comment> \<open>the decimal text a template literal gives an integer\<close>
  "show_int i = (if i < 0 then CHR ''-'' # show_nat (nat (- i)) else show_nat (nat i))"


section \<open>TwoFactorService: phone formatting\<close>

definition formatPhoneNumber :: "string \<Rightarrow> string" where
  "formatPhoneNumber phoneNumber =
     (let cleaned = strip_non_digits phoneNumber in
      if startsWith cleaned ''91'' then ''+'' @ cleaned
      else if length cleaned = 10 then ''+91'' @ cleaned
      else if startsWith phoneNumber ''+'' then phoneNumber
      else ''+'' @ cleaned)"

definition formatPhoneForAPI :: "string \<Rightarrow> string" where
  "formatPhoneForAPI phoneNumber =
     (let cleaned = strip_non_digits phoneNumber in
      if startsWith cleaned ''91'' then cleaned
      else if length cleaned = 10 then ''91'' @ cleaned
      else cleaned)"


section \<open>TwoFactorService: the gateway client\<close>

text \<open>
  The outside world of one request: the environment variable holding the API key, the
  answer of the SMS gateway to each HTTP GET, the clock, and whether each database or
  token call of the verify handler throws. A GET either resolves with a body, of which
  the code reads the fields \<open>Status\<close> and \<open>Details\<close>, or rejects with an error, of
  which the code reads \<open>error.response?.data?.Details\<close> and \<open>error.message\<close> (a
  network error, a timeout, a non-2xx status, or the \<open>TypeError\<close> of reading a field of
  a missing body).
\<close>

datatype gw_request =
    SmsReq string string       \<comment> \<open>\<open>{base}/{apiKey}/SMS/{phone}/AUTOGEN/UrbanestaOTP\<close>\<close>
  | VoiceReq string string     \<comment> \<open>\<open>{base}/{apiKey}/SMS/{phone}/AUTOGEN/VOICE\<close>\<close>
  | VerifyReq string string string  \<comment> \<open>\<open>{base}/{apiKey}/SMS/VERIFY/{sessionId}/{otp}\<close>\<close>

datatype http_outcome =
    Resolved jstr jstr    \<comment> \<open>\<open>response.data.Status\<close>, \<open>response.data.Details\<close>\<close>
  | Rejected jstr jstr    \<comment> \<open>\<open>error.response?.data?.Details\<close>, \<open>error.message\<close>\<close>

record world =
  TWO_FACTOR_API_KEY :: jstr
  http_get :: "gw_request \<Rightarrow> http_outcome"
  now :: int                 \<comment> \<open>the clock, in milliseconds, when the handler reads it\<close>
  login_clock :: int         \<comment> \<open>\<open>new Date()\<close> for \<open>lastLogin\<close>, after the user lookup\<close>
  note_clock :: int          \<comment> \<open>\<open>new Date()\<close> for the lead's note\<close>
  findOne_throws :: bool     \<comment> \<open>\<open>User.findOne\<close> rejects\<close>
  user_save_throws :: bool   \<comment> \<open>\<open>user.save()\<close> rejects\<close>
  lead_save_throws :: bool   \<comment> \<open>\<open>lead.save()\<close> rejects\<close>
  token_throws :: bool       \<comment> \<open>\<open>generateToken\<close> or \<open>generateRefreshToken\<close> throws\<close>

definition getApiKey :: "world \<Rightarrow> string + string" where
  \<comment> \<open>\<open>Inl\<close> carries the message of the thrown \<open>Error\<close>\<close>
  "getApiKey w =
     (case TWO_FACTOR_API_KEY w of
        None \<Rightarrow> Inl ''2Factor API key is required. Please check your environment configuration.''
      | Some k \<Rightarrow>
          if k = [] then
            Inl ''2Factor API key is required. Please check your environment configuration.''
          else
            (let apiKey = trim k in
             if apiKey = [] \<or> length apiKey < 10 then
               Inl ''Invalid 2Factor API key. Please check your environment configuration.''
             else Inr apiKey))"

text \<open>
  The calls a handler makes on the service, in order, with their arguments. The two
  senders also return the requests they put on the wire with \<open>axios.get\<close>: none when
  \<open>getApiKey\<close> throws while the URL is built, one otherwise.
\<close>

datatype service_call =
    SMS string            \<comment> \<open>\<open>sendSMSOTP(apiFormattedPhone)\<close>\<close>
  | VOICE string          \<comment> \<open>\<open>sendVoiceOTP(apiFormattedPhone)\<close>\<close>
  | VERIFY jstr jstr      \<comment> \<open>\<open>verifyOTP(sessionId, otp)\<close>\<close>

datatype delivery =
    Delivered jstr        \<comment> \<open>\<open>{success: true, sessionId}\<close>\<close>
  | Undelivered string    \<comment> \<open>\<open>{success: false, error}\<close>\<close>

definition sendSMSOTP :: "world \<Rightarrow> string \<Rightarrow> delivery \<times> gw_request list" where
  "sendSMSOTP w apiFormattedPhone =
     (case getApiKey w of
        Inl msg \<Rightarrow> (Undelivered (or_default (Some msg) ''SMS API error''), [])
      | Inr key \<Rightarrow>
          (let request = SmsReq key apiFormattedPhone
           in case http_get w request of
                Resolved status details \<Rightarrow>
                  if status = Some ''Success'' then (Delivered details, [request])
                  else (Undelivered (or_default details ''SMS delivery failed''), [request])
              | Rejected details msg \<Rightarrow>
                  (Undelivered (or_default (or_else details msg) ''SMS API error''),
                   [request])))"

definition sendVoiceOTP :: "world \<Rightarrow> string \<Rightarrow> delivery \<times> gw_request list" where
  "sendVoiceOTP w apiFormattedPhone =
     (case getApiKey w of
        Inl msg \<Rightarrow> (Undelivered (or_default (Some msg) ''Voice API error''), [])
      | Inr key \<Rightarrow>
          (let request = VoiceReq key apiFormattedPhone
           in case http_get w request of
                Resolved status details \<Rightarrow>
                  if status = Some ''Success'' then (Delivered details, [request])
                  else (Undelivered (or_default details ''Voice delivery failed''), [request])
              | Rejected details msg \<Rightarrow>
                  (Undelivered (or_default (or_else details msg) ''Voice API error''),
                   [request])))"

datatype channel = sms | voice

record otp_sent =
  os_sessionId :: jstr
  os_message :: string
  os_type :: channel
  os_dbFormattedPhone :: string
  os_fallback :: bool

datatype send_outcome =
    SendOk otp_sent       \<comment> \<open>\<open>{success: true, sessionId, message, type, dbFormattedPhone, fallback}\<close>\<close>
  | SendFailed string     \<comment> \<open>\<open>{success: false, error}\<close>\<close>

definition sendOTP :: "world \<Rightarrow> string
                        \<Rightarrow> send_outcome \<times> service_call list \<times> gw_request list" where
  \<comment> \<open>the result, the senders called, and the requests they put on the wire\<close>
  "sendOTP w phoneNumber =
     (if phoneNumber = [] then
        (SendFailed (or_default (Some ''Phone number is required and must be a string'')
                       ''Failed to send OTP''), [], [])
      else
        (let apiFormattedPhone = formatPhoneForAPI phoneNumber;
             dbFormattedPhone = formatPhoneNumber phoneNumber;
             (smsResult, smsRequests) = sendSMSOTP w apiFormattedPhone
         in case smsResult of
              Delivered sid \<Rightarrow>
                (SendOk \<lparr>os_sessionId = sid, os_message = ''SMS OTP sent successfully'',
                         os_type = sms, os_dbFormattedPhone = dbFormattedPhone,
                         os_fallback = False\<rparr>,
                 [SMS apiFormattedPhone], smsRequests)
            | Undelivered smsError \<Rightarrow>
                (let (voiceResult, voiceRequests) = sendVoiceOTP w apiFormattedPhone
                 in case voiceResult of
                      Delivered sid \<Rightarrow>
                        (SendOk \<lparr>os_sessionId = sid,
                                 os_message = ''Unable to send SMS OTP. Voice OTP has been sent to your number.'',
                                 os_type = voice, os_dbFormattedPhone = dbFormattedPhone,
                                 os_fallback = True\<rparr>,
                         [SMS apiFormattedPhone, VOICE apiFormattedPhone],
                         smsRequests @ voiceRequests)
                    | Undelivered voiceError \<Rightarrow>
                        (SendFailed (''Unable to send OTP. SMS error: '' @ smsError @
                                     ''. Voice error: '' @ voiceError),
                         [SMS apiFormattedPhone, VOICE apiFormattedPhone],
                         smsRequests @ voiceRequests))))"

datatype verification =
    Verified              \<comment> \<open>\<open>{success: true, message}\<close>\<close>
  | NotVerified string    \<comment> \<open>\<open>{success: false, error}\<close>\<close>

definition verifyOTP :: "world \<Rightarrow> jstr \<Rightarrow> jstr \<Rightarrow> verification" where
  "verifyOTP w sessionId otp =
     (case sessionId of
        None \<Rightarrow> NotVerified ''Session ID is required and must be a string''
      | Some sid \<Rightarrow>
          if sid = [] then NotVerified ''Session ID is required and must be a string''
          else
            (case otp of
               None \<Rightarrow> NotVerified ''OTP is required and must be a string''
             | Some code \<Rightarrow>
                 if code = [] then NotVerified ''OTP is required and must be a string''
                 else
                   (case getApiKey w of
                      Inl msg \<Rightarrow> NotVerified (or_default (Some msg) ''Failed to verify OTP'')
                    | Inr key \<Rightarrow>
                        (case http_get w (VerifyReq key sid code) of
                           Resolved status details \<Rightarrow>
                             if status = Some ''Success'' then Verified
                             else NotVerified (or_default details ''Invalid OTP'')
                         | Rejected details msg \<Rightarrow>
                             NotVerified (or_default (or_else details msg)
                                            ''Failed to verify OTP'')))))"


section \<open>The OTP routes\<close>

text \<open>
  The two handlers of the router, \<open>POST /send-otp\<close> and \<open>POST /verify-otp\<close>, as
  functions from the world, the request body and the state to the reply, the new state
  and the calls made on the service. A field of a request body is a string or absent;
  \<open>length\<close> counts characters, which for the ASCII text of phone numbers and codes is
  what JavaScript counts. The send handler reads the clock twice in one synchronous block
  (\<open>new Date()\<close>, \<open>Date.now()\<close>): both reads are \<open>now\<close>. Dates are compared as
  their millisecond values. Of a reply, the status, \<open>success\<close>, \<open>message\<close> and
  the data computed from the state are kept; database ids, the token strings, cookies and
  logging are left out, and a throwing token issuer is the flag \<open>token_throws\<close>.
\<close>

record session =
  s_phoneNumber :: string
  s_phone :: string
  s_name :: jstr
  s_city :: jstr
  s_propertyId :: jstr
  s_propertyName :: jstr
  s_propertyUrl :: jstr
  s_createdAt :: int
  s_attempts :: int
  s_verified :: bool
  s_otpType :: channel

text \<open>\<open>otpSessions\<close> is a \<open>Map\<close>; a key is whatever session id the gateway returned.\<close>

type_synonym sessions = "jstr \<rightharpoonup> session"

record user_view =
  uv_name :: string
  uv_phone :: string
  uv_phoneNumber :: string
  uv_city :: string
  uv_email :: jstr
  uv_isReturning :: bool
  uv_isNew :: bool

datatype payload =
    NoPayload
  | SessionIdPayload jstr          \<comment> \<open>\<open>sessionId\<close> of the send reply\<close>
  | LoginPayload user_view jstr    \<comment> \<open>\<open>user\<close> and \<open>lead.propertyName\<close> of the verify reply\<close>

record response =
  status :: nat
  success :: bool
  message :: string
  payload :: payload

record send_req =
  sr_phone :: jstr
  sr_name :: jstr
  sr_city :: jstr
  sr_propertyId :: jstr
  sr_propertyName :: jstr
  sr_propertyUrl :: jstr

definition sweep :: "int \<Rightarrow> sessions \<Rightarrow> sessions" where
  \<comment> \<open>the clean-up loop: delete every entry with \<open>createdAt < tenMinutesAgo\<close>\<close>
  "sweep tenMinutesAgo m =
     (\<lambda>id. case m id of
             None \<Rightarrow> None
           | Some s \<Rightarrow> if s_createdAt s < tenMinutesAgo then None else Some s)"

definition send_otp :: "world \<Rightarrow> send_req \<Rightarrow> sessions \<Rightarrow> response \<times> sessions \<times> service_call list" where
  "send_otp w req otpSessions =
     (let invalid = (\<lparr>status = 400, success = False,
                       message = ''Please provide a valid 10-digit phone number'',
                       payload = NoPayload\<rparr>, otpSessions, [])
      in case sr_phone req of
           None \<Rightarrow> invalid
         | Some phone \<Rightarrow>
             if phone = [] \<or> length phone \<noteq> 10 then invalid
             else
               (let phoneNumber = ''+91'' @ phone;
                    (result, calls, requests) = sendOTP w phoneNumber
                in case result of
                     SendOk r \<Rightarrow>
                       (let sessionId = os_sessionId r;
                            stored = otpSessions(sessionId \<mapsto>
                              \<lparr>s_phoneNumber =
                                 (if os_dbFormattedPhone r = [] then phoneNumber
                                  else os_dbFormattedPhone r),
                               s_phone = phone,
                               s_name = sr_name req,
                               s_city = sr_city req,
                               s_propertyId = sr_propertyId req,
                               s_propertyName = sr_propertyName req,
                               s_propertyUrl = sr_propertyUrl req,
                               s_createdAt = now w,
                               s_attempts = 0,
                               s_verified = False,
                               s_otpType = os_type r\<rparr>);
                            tenMinutesAgo = now w - 10 * 60 * 1000
                        in (\<lparr>status = 200, success = True,
                             message = ''OTP sent successfully to your mobile number'',
                             payload = SessionIdPayload sessionId\<rparr>,
                            sweep tenMinutesAgo stored, calls))
                   | SendFailed err \<Rightarrow>
                       (\<lparr>status = 500, success = False,
                         message = or_default (Some err) ''Failed to send OTP. Please try again.'',
                         payload = NoPayload\<rparr>, otpSessions, calls)))"

record user =
  u_name :: string
  u_phoneNumber :: string
  u_city :: string
  u_email :: jstr
  u_lastLogin :: int

record lead =
  l_name :: string
  l_phone :: string
  l_email :: jstr
  l_city :: string
  l_propertyId :: jstr
  l_propertyName :: jstr
  l_propertyUrl :: jstr
  l_propertyInterest :: jstr
  l_source :: string
  l_status :: string
  l_priority :: string
  l_notes :: "(string \<times> int) list"

record state =
  otpSessions :: sessions
  users :: "user list"       \<comment> \<open>the \<open>User\<close> collection\<close>
  leads :: "lead list"       \<comment> \<open>the \<open>Lead\<close> collection\<close>

record verify_req =
  vr_sessionId :: jstr
  vr_otp :: jstr
  vr_name :: jstr
  vr_city :: jstr
  vr_propertyId :: jstr
  vr_propertyName :: jstr
  vr_propertyUrl :: jstr
  vr_source :: jstr

fun findOne :: "user list \<Rightarrow> string \<Rightarrow> (nat \<times> user) option" where
  \<comment> \<open>\<open>User.findOne({ phoneNumber })\<close>: the first matching document and its position\<close>
  "findOne [] p = None"
| "findOne (u # us) p =
     (if u_phoneNumber u = p then Some (0, u)
      else map_option (\<lambda>(i, v). (Suc i, v)) (findOne us p))"

definition upsert_user :: "world \<Rightarrow> verify_req \<Rightarrow> session \<Rightarrow> user list
                            \<Rightarrow> user list \<times> user \<times> bool \<times> bool" where
  \<comment> \<open>the collection once \<open>user.save()\<close> has succeeded, the document, \<open>isNewUser\<close>,
      \<open>isReturningUser\<close>\<close>
  "upsert_user w req session us =
     (case findOne us (s_phoneNumber session) of
        None \<Rightarrow>
          (let user = \<lparr>u_name = or_default (or_else (vr_name req) (s_name session)) ''User'',
                       u_phoneNumber = s_phoneNumber session,
                       u_city = or_default (vr_city req) ''Delhi'',
                       u_email = None,
                       u_lastLogin = login_clock w\<rparr>
           in (us @ [user], user, True, False))
      | Some (i, found) \<Rightarrow>
          (let named = (case vr_name req of
                          None \<Rightarrow> found
                        | Some name \<Rightarrow>
                            if name \<noteq> [] \<and> name \<noteq> ''User'' \<and> u_name found \<noteq> name
                            then found\<lparr>u_name := name\<rparr> else found);
               moved = (case vr_city req of
                          None \<Rightarrow> named
                        | Some city \<Rightarrow>
                            if city \<noteq> [] \<and> u_city named \<noteq> city
                            then named\<lparr>u_city := city\<rparr> else named);
               user = moved\<lparr>u_lastLogin := login_clock w\<rparr>
           in (us[i := user], user, False, True)))"

definition new_lead :: "world \<Rightarrow> verify_req \<Rightarrow> session \<Rightarrow> user \<Rightarrow> lead" where
  "new_lead w req session user =
     \<lparr>l_name = u_name user,
      l_phone = s_phone session,
      l_email = or_else (u_email user) None,
      l_city = (if u_city user \<noteq> [] then u_city user else or_default (vr_city req) ''Delhi''),
      l_propertyId = or_else (vr_propertyId req) None,
      l_propertyName = or_else (vr_propertyName req) None,
      l_propertyUrl = or_else (vr_propertyUrl req) None,
      l_propertyInterest = or_else (vr_propertyName req) None,
      l_source = ''website'',
      l_status = ''new'',
      l_priority = ''medium'',
      l_notes = [(''Lead captured via OTP verification from '' @
                    or_default (vr_source req) ''get_in_touch_otp'', note_clock w)]\<rparr>"

definition failed_500 :: response where
  \<comment> \<open>the reply of the handler's \<open>catch\<close> block\<close>
  "failed_500 = \<lparr>status = 500, success = False,
                  message = ''Failed to verify OTP. Please try again.'', payload = NoPayload\<rparr>"

definition bad_request :: "string \<Rightarrow> response" where
  "bad_request msg = \<lparr>status = 400, success = False, message = msg, payload = NoPayload\<rparr>"

definition post_verification :: "world \<Rightarrow> verify_req \<Rightarrow> session \<Rightarrow> state \<Rightarrow> response \<times> state" where
  \<comment> \<open>what follows \<open>session.verified = true\<close>; a throw ends in the \<open>catch\<close> block with the
      state as it is at that point\<close>
  "post_verification w req session st =
     (if findOne_throws w then (failed_500, st)
      else
        (let (saved, user, isNewUser, isReturningUser) = upsert_user w req session (users st)
         in if user_save_throws w then (failed_500, st)
            else
              (let st2 = st\<lparr>users := saved\<rparr>;
                   lead = new_lead w req session user
               in if lead_save_throws w then (failed_500, st2)
                  else
                    (let st3 = st2\<lparr>leads := leads st2 @ [lead]\<rparr>;
                         st4 = st3\<lparr>otpSessions := (otpSessions st3)(vr_sessionId req := None)\<rparr>
                     in if token_throws w then (failed_500, st4)
                        else
                          (\<lparr>status = 200, success = True,
                            message = (if isReturningUser then ''Welcome back! You're logged in.''
                                       else ''Account created successfully. Welcome!''),
                            payload = LoginPayload
                              \<lparr>uv_name = u_name user, uv_phone = s_phone session,
                               uv_phoneNumber = u_phoneNumber user, uv_city = u_city user,
                               uv_email = u_email user, uv_isReturning = isReturningUser,
                               uv_isNew = isNewUser\<rparr>
                              (l_propertyName lead)\<rparr>, st4)))))"

definition verify_otp :: "world \<Rightarrow> verify_req \<Rightarrow> state \<Rightarrow> response \<times> state \<times> service_call list" where
  "verify_otp w req st =
     (let sessionId = vr_sessionId req; otp = vr_otp req
      in if \<not> truthy sessionId \<or> \<not> truthy otp then
           (bad_request ''Session ID and OTP are required'', st, [])
         else
           (case otpSessions st sessionId of
              None \<Rightarrow>
                (bad_request ''Session expired or invalid. Please request a new OTP.'', st, [])
            | Some session \<Rightarrow>
                (let tenMinutesAgo = now w - 10 * 60 * 1000
                 in if s_createdAt session < tenMinutesAgo then
                      (bad_request ''Session has expired. Please request a new OTP.'',
                       st\<lparr>otpSessions := (otpSessions st)(sessionId := None)\<rparr>, [])
                    else if s_attempts session \<ge> 3 then
                      (bad_request ''Maximum attempts exceeded. Please request a new OTP.'',
                       st\<lparr>otpSessions := (otpSessions st)(sessionId := None)\<rparr>, [])
                    else
                      (case verifyOTP w sessionId otp of
                         NotVerified err \<Rightarrow>
                           (let failed = session\<lparr>s_attempts := s_attempts session + 1\<rparr>
                            in (bad_request (''Invalid OTP. '' @ show_int (3 - s_attempts failed) @
                                             '' attempts remaining.''),
                                st\<lparr>otpSessions := (otpSessions st)(sessionId \<mapsto> failed)\<rparr>,
                                [VERIFY sessionId otp]))
                       | Verified \<Rightarrow>
                           (let marked = session\<lparr>s_verified := True\<rparr>;
                                st1 = st\<lparr>otpSessions := (otpSessions st)(sessionId \<mapsto> marked)\<rparr>;
                                (reply, st') = post_verification w req marked st1
                            in (reply, st', [VERIFY sessionId otp]))))))"


text \<open>Consecutive verify calls, each with its own world and request, on the evolving state.\<close>

fun verify_calls :: "(world \<times> verify_req) list \<Rightarrow> state
                      \<Rightarrow> (response \<times> service_call list) list \<times> state" where
  "verify_calls [] st = ([], st)"
| "verify_calls ((w, req) # rest) st =
     (let (reply, st1, calls) = verify_otp w req st;
          (replies, st2) = verify_calls rest st1
      in ((reply, calls) # replies, st2))"


section \<open>Concrete scenarios\<close>

definition gateway_says :: "jstr \<Rightarrow> jstr \<Rightarrow> int \<Rightarrow> world" where
  \<comment> \<open>a world with a well-formed API key whose gateway gives one fixed answer, read at
      the given time, where no database or token call throws\<close>
  "gateway_says st details t =
     \<lparr>TWO_FACTOR_API_KEY = Some ''0123456789abcdef'',
      http_get = (\<lambda>_. Resolved st details),
      now = t, login_clock = t, note_clock = t,
      findOne_throws = False, user_save_throws = False,
      lead_save_throws = False, token_throws = False\<rparr>"

definition accepting :: "int \<Rightarrow> world" where
  "accepting t = gateway_says (Some ''Success'') (Some ''sess-1'') t"

definition rejecting :: "int \<Rightarrow> world" where
  "rejecting t = gateway_says (Some ''Error'') (Some ''OTP Mismatch'') t"

definition sms_down :: "int \<Rightarrow> world" where
  \<comment> \<open>the SMS request times out, every other request is answered \<open>Success\<close>\<close>
  "sms_down t =
     (accepting t)\<lparr>http_get :=
        (\<lambda>r. case r of
               SmsReq key phone \<Rightarrow> Rejected None (Some ''timeout of 10000ms exceeded'')
             | VoiceReq key phone \<Rightarrow> Resolved (Some ''Success'') (Some ''voice-1'')
             | VerifyReq key sid code \<Rightarrow> Resolved (Some ''Success'') None)\<rparr>"

definition faulty :: "bool \<Rightarrow> bool \<Rightarrow> int \<Rightarrow> world" where
  \<comment> \<open>an accepting world in which \<open>user.save()\<close>, or the token issuer, throws as told\<close>
  "faulty save token t = (accepting t)\<lparr>user_save_throws := save, token_throws := token\<rparr>"

definition asha_session :: session where
  "asha_session =
     \<lparr>s_phoneNumber = ''+919876543210'', s_phone = ''9876543210'',
      s_name = Some ''Asha'', s_city = Some ''Pune'',
      s_propertyId = None, s_propertyName = None, s_propertyUrl = None,
      s_createdAt = 0, s_attempts = 0, s_verified = False, s_otpType = sms\<rparr>"

definition one_session :: state where
  "one_session = \<lparr>otpSessions = [Some ''sess-1'' \<mapsto> asha_session], users = [], leads = []\<rparr>"

definition asha_user :: user where
  "asha_user = \<lparr>u_name = ''Asha'', u_phoneNumber = ''+919876543210'', u_city = ''Mumbai'',
                 u_email = None, u_lastLogin = 0\<rparr>"

definition returning_state :: state where
  "returning_state = one_session\<lparr>users := [asha_user]\<rparr>"

definition code_req :: "string \<Rightarrow> verify_req" where
  "code_req code =
     \<lparr>vr_sessionId = Some ''sess-1'', vr_otp = Some code, vr_name = None, vr_city = None,
      vr_propertyId = None, vr_propertyName = None, vr_propertyUrl = None, vr_source = None\<rparr>"

definition phone_req :: "string \<Rightarrow> send_req" where
  "phone_req phone =
     \<lparr>sr_phone = Some phone, sr_name = Some ''Asha'', sr_city = Some ''Pune'',
      sr_propertyId = None, sr_propertyName = None, sr_propertyUrl = None\<rparr>"


section \<open>Phone formatting\<close>

lemma strip_non_digits_digits: "\<forall>c\<in>set x. is_digit c \<Longrightarrow> strip_non_digits x = x"
  by (simp add: strip_non_digits_def)

lemma strip_non_digits_idem: "strip_non_digits (strip_non_digits x) = strip_non_digits x"
  by (simp add: strip_non_digits_def)

lemma strip_non_digits_plus: "strip_non_digits (CHR ''+'' # x) = strip_non_digits x"
  by (simp add: strip_non_digits_def is_digit_def)

lemma strip_non_digits_91:
  "strip_non_digits (CHR ''9'' # CHR ''1'' # x) = CHR ''9'' # CHR ''1'' # strip_non_digits x"
  by (simp add: strip_non_digits_def is_digit_def)

lemma formatPhoneForAPI_idem: "formatPhoneForAPI (formatPhoneForAPI y) = formatPhoneForAPI y"
  by (simp add: formatPhoneForAPI_def Let_def strip_non_digits_idem strip_non_digits_91
        startsWith_def)

lemma formatPhoneNumber_idem: "formatPhoneNumber (formatPhoneNumber y) = formatPhoneNumber y"
  by (simp add: formatPhoneNumber_def Let_def strip_non_digits_idem strip_non_digits_91
        strip_non_digits_plus startsWith_def)

lemma formatPhoneForAPI_no_plus: "CHR ''+'' \<notin> set (formatPhoneForAPI y)"
  by (auto simp add: formatPhoneForAPI_def Let_def strip_non_digits_def is_digit_def)

text \<open>
  The ten digits \<open>9123456789\<close> begin with \<open>91\<close>, so both functions take them for a
  number that already carries the country code: no \<open>91\<close> is put in front.
\<close>

theorem ten_digits_starting_91_counterexample:
  "formatPhoneForAPI ''9123456789'' \<noteq> ''91'' @ ''9123456789'' \<and>
   formatPhoneNumber ''9123456789'' \<noteq> ''+91'' @ ''9123456789''"
  by (simp add: formatPhoneForAPI_def formatPhoneNumber_def Let_def strip_non_digits_def
        is_digit_def startsWith_def)

text \<open>
  Claim C3, amended. For every string of exactly ten decimal digits that does not begin
  with \<open>91\<close>, \<open>formatPhoneForAPI\<close> returns the digits prefixed with \<open>91\<close>, with no
  \<open>+\<close> in the result, and \<open>formatPhoneNumber\<close> returns the same digits prefixed with
  \<open>+91\<close>. Both functions are idempotent on every string.
\<close>

theorem format_ten_digits:
  assumes "length x = 10" and "\<forall>c\<in>set x. is_digit c" and "\<not> startsWith x ''91''"
  shows "formatPhoneForAPI x = ''91'' @ x \<and>
         CHR ''+'' \<notin> set (formatPhoneForAPI x) \<and>
         formatPhoneNumber x = ''+91'' @ x \<and>
         formatPhoneForAPI (formatPhoneForAPI y) = formatPhoneForAPI y \<and>
         formatPhoneNumber (formatPhoneNumber y) = formatPhoneNumber y"
proof -
  have c: "strip_non_digits x = x"
    using assms(2) by (rule strip_non_digits_digits)
  have a: "formatPhoneForAPI x = ''91'' @ x"
    using assms by (simp add: formatPhoneForAPI_def Let_def c)
  have b: "formatPhoneNumber x = ''+91'' @ x"
    using assms by (simp add: formatPhoneNumber_def Let_def c)
  from a b formatPhoneForAPI_no_plus [of x] formatPhoneForAPI_idem [of y]
    formatPhoneNumber_idem [of y]
  show ?thesis by blast
qed

theorem format_ten_digits_witness:
  "length ''9876543210'' = 10 \<and> list_all is_digit ''9876543210'' \<and>
   \<not> startsWith ''9876543210'' ''91'' \<and>
   formatPhoneForAPI ''9876543210'' = ''919876543210'' \<and>
   formatPhoneNumber ''9876543210'' = ''+919876543210'' \<and>
   formatPhoneNumber (formatPhoneNumber ''98765 43210'') = formatPhoneNumber ''98765 43210''"
proof -
  have h1: "length ''9876543210'' = 10" by simp
  have h2: "\<forall>c\<in>set ''9876543210''. is_digit c" by (simp add: is_digit_def)
  have h3: "\<not> startsWith ''9876543210'' ''91''" by (simp add: startsWith_def)
  from format_ten_digits [OF h1 h2 h3, of "''98765 43210''"] h1 h2 h3
  show ?thesis by (simp add: list_all_iff)
qed

text \<open>
  Claim C10. For every string made of decimal digits only, \<open>formatPhoneNumber\<close> is the
  character \<open>+\<close> followed by \<open>formatPhoneForAPI\<close> of the same string.
\<close>

theorem formatPhoneNumber_is_plus_formatPhoneForAPI:
  assumes "\<forall>c\<in>set x. is_digit c"
  shows "formatPhoneNumber x = CHR ''+'' # formatPhoneForAPI x"
proof -
  have c: "strip_non_digits x = x"
    using assms by (rule strip_non_digits_digits)
  have "\<not> startsWith x ''+''"
  proof
    assume "startsWith x ''+''"
    then obtain r where "x = CHR ''+'' # r"
      by (cases x) (auto simp: startsWith_def)
    with assms show False by (simp add: is_digit_def)
  qed
  then show ?thesis
    by (simp add: formatPhoneNumber_def formatPhoneForAPI_def Let_def c)
qed

theorem formatPhoneNumber_is_plus_formatPhoneForAPI_witness:
  "list_all is_digit ''04412345'' \<and>
   formatPhoneNumber ''04412345'' = ''+04412345'' \<and>
   formatPhoneForAPI ''04412345'' = ''04412345''"
proof -
  have h: "\<forall>c\<in>set ''04412345''. is_digit c" by (simp add: is_digit_def)
  have a: "formatPhoneForAPI ''04412345'' = ''04412345''"
    by (simp add: formatPhoneForAPI_def Let_def strip_non_digits_def is_digit_def
          startsWith_def)
  from formatPhoneNumber_is_plus_formatPhoneForAPI [OF h] h a show ?thesis
    by (simp add: list_all_iff)
qed


section \<open>The scenarios evaluated\<close>

lemma getApiKey_gateway_says: "getApiKey (gateway_says s d t) = Inr ''0123456789abcdef''"
  by (simp add: getApiKey_def gateway_says_def trim_def is_space_def Let_def)

lemma http_get_gateway_says: "http_get (gateway_says s d t) r = Resolved s d"
  by (simp add: gateway_says_def)

lemma sendSMSOTP_accepting:
  "sendSMSOTP (accepting t) p = (Delivered (Some ''sess-1''), [SmsReq ''0123456789abcdef'' p])"
  by (simp add: sendSMSOTP_def accepting_def getApiKey_gateway_says http_get_gateway_says
        Let_def)

lemma getApiKey_sms_down: "getApiKey (sms_down t) = Inr ''0123456789abcdef''"
  by (simp add: getApiKey_def sms_down_def accepting_def gateway_says_def trim_def
        is_space_def Let_def)

lemma formatPhoneForAPI_letters: "formatPhoneForAPI ''+91abcdefghij'' = ''91''"
  by (simp add: formatPhoneForAPI_def Let_def strip_non_digits_def is_digit_def startsWith_def)

lemma formatPhoneNumber_letters: "formatPhoneNumber ''+91abcdefghij'' = ''+91''"
  by (simp add: formatPhoneNumber_def Let_def strip_non_digits_def is_digit_def startsWith_def)

lemma formatPhoneForAPI_asha: "formatPhoneForAPI ''+919876543210'' = ''919876543210''"
  by (simp add: formatPhoneForAPI_def Let_def strip_non_digits_def is_digit_def startsWith_def)

lemma formatPhoneNumber_asha: "formatPhoneNumber ''+919876543210'' = ''+919876543210''"
  by (simp add: formatPhoneNumber_def Let_def strip_non_digits_def is_digit_def startsWith_def)

lemma sendOTP_letters:
  "sendOTP (accepting t) ''+91abcdefghij'' =
     (SendOk \<lparr>os_sessionId = Some ''sess-1'', os_message = ''SMS OTP sent successfully'',
              os_type = sms, os_dbFormattedPhone = ''+91'', os_fallback = False\<rparr>,
      [SMS ''91''], [SmsReq ''0123456789abcdef'' ''91''])"
  by (simp add: sendOTP_def Let_def formatPhoneForAPI_letters formatPhoneNumber_letters
        sendSMSOTP_accepting)

lemma sendOTP_accepting_asha:
  "sendOTP (accepting t) ''+919876543210'' =
     (SendOk \<lparr>os_sessionId = Some ''sess-1'', os_message = ''SMS OTP sent successfully'',
              os_type = sms, os_dbFormattedPhone = ''+919876543210'', os_fallback = False\<rparr>,
      [SMS ''919876543210''], [SmsReq ''0123456789abcdef'' ''919876543210''])"
  by (simp add: sendOTP_def Let_def formatPhoneForAPI_asha formatPhoneNumber_asha
        sendSMSOTP_accepting)

lemma http_get_sms_down:
  "http_get (sms_down t) (SmsReq key p) = Rejected None (Some ''timeout of 10000ms exceeded'')"
  "http_get (sms_down t) (VoiceReq key p) = Resolved (Some ''Success'') (Some ''voice-1'')"
  by (simp_all add: sms_down_def)

lemma sendOTP_sms_down_asha:
  "sendOTP (sms_down t) ''+919876543210'' =
     (SendOk \<lparr>os_sessionId = Some ''voice-1'',
              os_message = ''Unable to send SMS OTP. Voice OTP has been sent to your number.'',
              os_type = voice, os_dbFormattedPhone = ''+919876543210'', os_fallback = True\<rparr>,
      [SMS ''919876543210'', VOICE ''919876543210''],
      [SmsReq ''0123456789abcdef'' ''919876543210'',
       VoiceReq ''0123456789abcdef'' ''919876543210''])"
  by (simp add: sendOTP_def sendSMSOTP_def sendVoiceOTP_def getApiKey_sms_down Let_def
        formatPhoneForAPI_asha formatPhoneNumber_asha http_get_sms_down or_default_def
        or_else_def truthy_def)


section \<open>The gateway client: SMS first, voice as the fallback\<close>

lemma getApiKey_message: "getApiKey w = Inl msg \<Longrightarrow> or_default (Some msg) d = msg"
  by (auto simp add: getApiKey_def or_default_def Let_def split: option.splits if_splits)

text \<open>
  Called with the empty string, \<open>sendOTP\<close> fails its own input check: it reports
  failure although no sender was called and the gateway would have accepted, and the
  error is not the combined one.
\<close>

theorem sendOTP_empty_phone_counterexample:
  "sendOTP (accepting 0) [] =
     (SendFailed ''Phone number is required and must be a string'', [], [])"
  by (simp add: sendOTP_def or_default_def)

text \<open>
  Claim C6, amended. Called with a non-empty phone number, \<open>sendOTP\<close> calls
  \<open>sendSMSOTP\<close> and, when that fails, \<open>sendVoiceOTP\<close> once, both with the number
  formatted for the API. With a usable API key the first request on the wire is the SMS
  request for that number. If the gateway answers it with \<open>Success\<close>, it is the only
  request and the result is a success carrying the \<open>Details\<close> of that answer as
  session id and the type \<open>sms\<close>. On any other answer, or an error, exactly one more
  request follows, the voice request for the same number; answered with \<open>Success\<close> it
  gives a success carrying the \<open>Details\<close> of the voice answer and the type
  \<open>voice\<close>, and otherwise the result is a failure whose error is
  \<open>Unable to send OTP. SMS error: \<close> the reason of the SMS failure
  \<open>. Voice error: \<close> the reason of the voice failure. A failure is reported only when
  neither request was answered with \<open>Success\<close>. Without a usable API key both senders
  fail before any request is made, and the combined error names the configuration error
  twice.
\<close>

theorem sendOTP_sms_then_voice:
  assumes "phoneNumber \<noteq> []"
  shows "(case sendOTP w phoneNumber of
      (result, calls, requests) \<Rightarrow>
        (let api = formatPhoneForAPI phoneNumber in
         (\<forall>key. getApiKey w = Inr key \<longrightarrow>
            (let smsReply = http_get w (SmsReq key api);
                 voiceReply = http_get w (VoiceReq key api)
             in (\<forall>sid. smsReply = Resolved (Some ''Success'') sid \<longrightarrow>
                   requests = [SmsReq key api] \<and> calls = [SMS api] \<and>
                   (\<exists>r. result = SendOk r \<and> os_sessionId r = sid \<and> os_type r = sms \<and>
                        \<not> os_fallback r))
              \<and> ((\<forall>sid. smsReply \<noteq> Resolved (Some ''Success'') sid) \<longrightarrow>
                   requests = [SmsReq key api, VoiceReq key api] \<and>
                   calls = [SMS api, VOICE api] \<and>
                   (\<forall>sid. voiceReply = Resolved (Some ''Success'') sid \<longrightarrow>
                      (\<exists>r. result = SendOk r \<and> os_sessionId r = sid \<and>
                           os_type r = voice \<and> os_fallback r)) \<and>
                   ((\<forall>sid. voiceReply \<noteq> Resolved (Some ''Success'') sid) \<longrightarrow>
                      result = SendFailed
                        (''Unable to send OTP. SMS error: '' @
                         (case smsReply of
                            Resolved st details \<Rightarrow> or_default details ''SMS delivery failed''
                          | Rejected details msg \<Rightarrow>
                              or_default (or_else details msg) ''SMS API error'') @
                         ''. Voice error: '' @
                         (case voiceReply of
                            Resolved st details \<Rightarrow> or_default details ''Voice delivery failed''
                          | Rejected details msg \<Rightarrow>
                              or_default (or_else details msg) ''Voice API error''))))
              \<and> (\<forall>e. result = SendFailed e \<longrightarrow>
                   (\<forall>sid. smsReply \<noteq> Resolved (Some ''Success'') sid) \<and>
                   (\<forall>sid. voiceReply \<noteq> Resolved (Some ''Success'') sid))))
         \<and> (\<forall>msg. getApiKey w = Inl msg \<longrightarrow>
               requests = [] \<and> calls = [SMS api, VOICE api] \<and>
               result = SendFailed (''Unable to send OTP. SMS error: '' @ msg @
                                    ''. Voice error: '' @ msg))))"
proof (cases "getApiKey w")
  case (Inl msg)
  from getApiKey_message [OF Inl] have m: "\<And>d. or_default (Some msg) d = msg" .
  from assms Inl show ?thesis
    by (simp add: sendOTP_def sendSMSOTP_def sendVoiceOTP_def Let_def m)
next
  case (Inr key)
  let ?api = "formatPhoneForAPI phoneNumber"
  show ?thesis
  proof (cases "http_get w (SmsReq key ?api)")
    case sr: (Resolved st details)
    show ?thesis
    proof (cases "st = Some ''Success''")
      case True
      with assms Inr sr show ?thesis
        by (simp add: sendOTP_def sendSMSOTP_def Let_def)
    next
      case False
      with assms Inr sr show ?thesis
        by (cases "http_get w (VoiceReq key ?api)")
           (simp_all add: sendOTP_def sendSMSOTP_def sendVoiceOTP_def Let_def)
    qed
  next
    case sr: (Rejected details msg)
    with assms Inr show ?thesis
      by (cases "http_get w (VoiceReq key ?api)")
         (simp_all add: sendOTP_def sendSMSOTP_def sendVoiceOTP_def Let_def)
  qed
qed

theorem sendOTP_sms_then_voice_witness:
  "''+919876543210'' \<noteq> [] \<and>
   getApiKey (sms_down 0) = Inr ''0123456789abcdef'' \<and>
   http_get (sms_down 0) (SmsReq ''0123456789abcdef'' ''919876543210'') =
     Rejected None (Some ''timeout of 10000ms exceeded'') \<and>
   http_get (sms_down 0) (VoiceReq ''0123456789abcdef'' ''919876543210'') =
     Resolved (Some ''Success'') (Some ''voice-1'') \<and>
   (case sendOTP (sms_down 0) ''+919876543210'' of
      (result, calls, requests) \<Rightarrow>
        requests = [SmsReq ''0123456789abcdef'' ''919876543210'',
                    VoiceReq ''0123456789abcdef'' ''919876543210''] \<and>
        calls = [SMS ''919876543210'', VOICE ''919876543210''] \<and>
        (\<exists>r. result = SendOk r \<and> os_sessionId r = Some ''voice-1'' \<and> os_type r = voice))"
proof -
  have h: "''+919876543210'' \<noteq> []" by simp
  from sendOTP_sms_then_voice [OF h, of "sms_down 0"] show ?thesis
    by (simp add: sendOTP_sms_down_asha getApiKey_sms_down http_get_sms_down)
qed


section \<open>The send route\<close>

lemma send_otp_ok:
  assumes "sr_phone req = Some phone" and "length phone = 10"
    and "sendOTP w (''+91'' @ phone) = (SendOk r, calls, requests)"
  shows "send_otp w req m =
     (\<lparr>status = 200, success = True,
       message = ''OTP sent successfully to your mobile number'',
       payload = SessionIdPayload (os_sessionId r)\<rparr>,
      sweep (now w - 10 * 60 * 1000)
        (m(os_sessionId r \<mapsto>
           \<lparr>s_phoneNumber = (if os_dbFormattedPhone r = [] then ''+91'' @ phone
                              else os_dbFormattedPhone r),
            s_phone = phone, s_name = sr_name req, s_city = sr_city req,
            s_propertyId = sr_propertyId req, s_propertyName = sr_propertyName req,
            s_propertyUrl = sr_propertyUrl req, s_createdAt = now w, s_attempts = 0,
            s_verified = False, s_otpType = os_type r\<rparr>)),
      calls)"
  using assms by (auto simp add: send_otp_def Let_def)

lemma send_otp_failed:
  assumes "sr_phone req = Some phone" and "length phone = 10"
    and "sendOTP w (''+91'' @ phone) = (SendFailed e, calls, requests)"
  shows "send_otp w req m =
     (\<lparr>status = 500, success = False,
       message = or_default (Some e) ''Failed to send OTP. Please try again.'',
       payload = NoPayload\<rparr>, m, calls)"
  using assms by (auto simp add: send_otp_def Let_def)

lemma send_otp_wrong_length:
  assumes "sr_phone req = None \<or> (\<exists>phone. sr_phone req = Some phone \<and> length phone \<noteq> 10)"
  shows "send_otp w req m =
     (\<lparr>status = 400, success = False,
       message = ''Please provide a valid 10-digit phone number'',
       payload = NoPayload\<rparr>, m, [])"
  using assms by (auto simp add: send_otp_def Let_def)

text \<open>
  Claim C4, at the phone \<open>abcdefghij\<close>: ten characters, none of them a digit. The length
  test lets it through. The gateway is asked to deliver to \<open>91\<close>, the reply is 200 and,
  the gateway accepting, a session is stored.
\<close>

theorem send_otp_accepts_letters:
  "(case send_otp (accepting 1000) (phone_req ''abcdefghij'') Map.empty of
      (reply, stored, calls) \<Rightarrow>
        status reply = 200 \<and> calls = [SMS ''91''] \<and> stored (Some ''sess-1'') \<noteq> None)"
  by (simp add: send_otp_def Let_def phone_req_def sendOTP_letters sweep_def)

text \<open>
  Claim C8. For a send request that passes the length test: when \<open>sendOTP\<close> reports
  success, the store afterwards holds, under the session id the gateway issued, a session
  with \<open>attempts = 0\<close> and \<open>verified = false\<close> created now, and every other key holds
  what the clean-up loop leaves of its old entry, so nothing else is inserted; when
  \<open>sendOTP\<close> reports failure, the store is unchanged and the reply is a 500.
\<close>

theorem send_otp_creates_one_session:
  assumes "sr_phone req = Some phone" and "length phone = 10"
  shows "(case send_otp w req m of
      (reply, m', calls) \<Rightarrow>
        (\<forall>r. fst (sendOTP w (''+91'' @ phone)) = SendOk r \<longrightarrow>
           (\<exists>s. m' (os_sessionId r) = Some s \<and> s_attempts s = 0 \<and> \<not> s_verified s \<and>
                s_createdAt s = now w \<and> s_phone s = phone) \<and>
           (\<forall>k. k \<noteq> os_sessionId r \<longrightarrow> m' k = sweep (now w - 10 * 60 * 1000) m k) \<and>
           reply = \<lparr>status = 200, success = True,
                     message = ''OTP sent successfully to your mobile number'',
                     payload = SessionIdPayload (os_sessionId r)\<rparr>)
        \<and> (\<forall>e. fst (sendOTP w (''+91'' @ phone)) = SendFailed e \<longrightarrow>
             m' = m \<and> status reply = 500 \<and> \<not> success reply))"
proof (cases "sendOTP w (''+91'' @ phone)")
  case (fields result calls requests)
  show ?thesis
  proof (cases result)
    case (SendOk r)
    with fields have "sendOTP w (''+91'' @ phone) = (SendOk r, calls, requests)" by simp
    from send_otp_ok [OF assms this, of m] fields SendOk show ?thesis
      by (simp add: sweep_def)
  next
    case (SendFailed e)
    with fields have "sendOTP w (''+91'' @ phone) = (SendFailed e, calls, requests)" by simp
    from send_otp_failed [OF assms this, of m] fields SendFailed show ?thesis
      by simp
  qed
qed

lemma send_otp_accepting_asha:
  "send_otp (accepting 5) (phone_req ''9876543210'') Map.empty =
     (\<lparr>status = 200, success = True,
       message = ''OTP sent successfully to your mobile number'',
       payload = SessionIdPayload (Some ''sess-1'')\<rparr>,
      [Some ''sess-1'' \<mapsto> asha_session\<lparr>s_createdAt := 5\<rparr>],
      [SMS ''919876543210''])"
proof -
  have n: "now (accepting 5) = 5"
    by (simp add: accepting_def gateway_says_def)
  have "sweep (5 - 10 * 60 * 1000) [Some ''sess-1'' \<mapsto> asha_session\<lparr>s_createdAt := 5\<rparr>]
        = [Some ''sess-1'' \<mapsto> asha_session\<lparr>s_createdAt := 5\<rparr>]"
    by (rule ext) (simp add: sweep_def asha_session_def)
  then show ?thesis
    using send_otp_ok [of "phone_req ''9876543210''" "''9876543210''" "accepting 5",
        OF _ _ _, of _ _ _ Map.empty]
    by (simp add: phone_req_def sendOTP_accepting_asha n asha_session_def)
qed

theorem send_otp_creates_one_session_witness:
  "sr_phone (phone_req ''9876543210'') = Some ''9876543210'' \<and> length ''9876543210'' = 10 \<and>
   (case send_otp (accepting 5) (phone_req ''9876543210'') Map.empty of
      (reply, m', calls) \<Rightarrow>
        m' (Some ''sess-1'') = Some (asha_session\<lparr>s_createdAt := 5\<rparr>) \<and>
        m' (Some ''other'') = None \<and> status reply = 200)"
proof -
  have h1: "sr_phone (phone_req ''9876543210'') = Some ''9876543210''"
    by (simp add: phone_req_def)
  have h2: "length ''9876543210'' = 10" by simp
  from send_otp_creates_one_session [OF h1 h2, of "accepting 5" Map.empty] h1 show ?thesis
    by (simp add: send_otp_accepting_asha)
qed


section \<open>The verify route, branch by branch\<close>

lemma verifyOTP_rejecting:
  "code \<noteq> [] \<Longrightarrow> verifyOTP (rejecting t) (Some ''sess-1'') (Some code) = NotVerified ''OTP Mismatch''"
  by (simp add: verifyOTP_def rejecting_def getApiKey_gateway_says http_get_gateway_says or_default_def)

lemma verifyOTP_accepting:
  "code \<noteq> [] \<Longrightarrow> verifyOTP (accepting t) (Some ''sess-1'') (Some code) = Verified"
  by (simp add: verifyOTP_def accepting_def getApiKey_gateway_says http_get_gateway_says)

lemma verify_otp_expired:
  assumes "truthy (vr_sessionId req)" "truthy (vr_otp req)"
    "otpSessions st (vr_sessionId req) = Some sess"
    "s_createdAt sess < now w - 10 * 60 * 1000"
  shows "verify_otp w req st =
    (bad_request ''Session has expired. Please request a new OTP.'',
     st\<lparr>otpSessions := (otpSessions st)(vr_sessionId req := None)\<rparr>, [])"
  using assms by (simp add: verify_otp_def Let_def)

lemma verify_otp_exhausted:
  assumes "truthy (vr_sessionId req)" "truthy (vr_otp req)"
    "otpSessions st (vr_sessionId req) = Some sess"
    "\<not> s_createdAt sess < now w - 10 * 60 * 1000" "3 \<le> s_attempts sess"
  shows "verify_otp w req st =
    (bad_request ''Maximum attempts exceeded. Please request a new OTP.'',
     st\<lparr>otpSessions := (otpSessions st)(vr_sessionId req := None)\<rparr>, [])"
  using assms by (simp add: verify_otp_def Let_def)

lemma verify_otp_rejected:
  assumes "truthy (vr_sessionId req)" "truthy (vr_otp req)"
    "otpSessions st (vr_sessionId req) = Some sess"
    "\<not> s_createdAt sess < now w - 10 * 60 * 1000" "s_attempts sess < 3"
    "verifyOTP w (vr_sessionId req) (vr_otp req) \<noteq> Verified"
  shows "verify_otp w req st =
    (bad_request (''Invalid OTP. '' @ show_int (3 - (s_attempts sess + 1)) @ '' attempts remaining.''),
     st\<lparr>otpSessions := (otpSessions st)(vr_sessionId req \<mapsto> sess\<lparr>s_attempts := s_attempts sess + 1\<rparr>)\<rparr>,
     [VERIFY (vr_sessionId req) (vr_otp req)])"
  using assms by (cases "verifyOTP w (vr_sessionId req) (vr_otp req)") (simp_all add: verify_otp_def Let_def)

lemma verify_otp_accepted:
  assumes "truthy (vr_sessionId req)" "truthy (vr_otp req)"
    "otpSessions st (vr_sessionId req) = Some sess"
    "\<not> s_createdAt sess < now w - 10 * 60 * 1000" "s_attempts sess < 3"
    "verifyOTP w (vr_sessionId req) (vr_otp req) = Verified"
  shows "verify_otp w req st =
    (fst (post_verification w req (sess\<lparr>s_verified := True\<rparr>)
            (st\<lparr>otpSessions := (otpSessions st)(vr_sessionId req \<mapsto> sess\<lparr>s_verified := True\<rparr>)\<rparr>)),
     snd (post_verification w req (sess\<lparr>s_verified := True\<rparr>)
            (st\<lparr>otpSessions := (otpSessions st)(vr_sessionId req \<mapsto> sess\<lparr>s_verified := True\<rparr>)\<rparr>)),
     [VERIFY (vr_sessionId req) (vr_otp req)])"
  using assms by (simp add: verify_otp_def Let_def split_beta)

lemma post_verification_message:
  "message (fst (post_verification w req s st)) \<in>
     {''Failed to verify OTP. Please try again.'', ''Welcome back! You're logged in.'',
      ''Account created successfully. Welcome!''}"
  by (simp add: post_verification_def Let_def split_beta failed_500_def)

lemma post_verification_all_saved:
  assumes "\<not> findOne_throws w" "\<not> user_save_throws w" "\<not> lead_save_throws w"
  shows "otpSessions (snd (post_verification w req s st)) (vr_sessionId req) = None"
  using assms by (simp add: post_verification_def Let_def split_beta)

lemma post_verification_ok:
  assumes "\<not> findOne_throws w" "\<not> user_save_throws w" "\<not> lead_save_throws w" "\<not> token_throws w"
  shows "post_verification w req s st =
    (case upsert_user w req s (users st) of
       (saved, user, isNewUser, isReturningUser) \<Rightarrow>
         (\<lparr>status = 200, success = True,
           message = (if isReturningUser then ''Welcome back! You're logged in.''
                      else ''Account created successfully. Welcome!''),
           payload = LoginPayload
             \<lparr>uv_name = u_name user, uv_phone = s_phone s,
              uv_phoneNumber = u_phoneNumber user, uv_city = u_city user,
              uv_email = u_email user, uv_isReturning = isReturningUser,
              uv_isNew = isNewUser\<rparr>
             (l_propertyName (new_lead w req s user))\<rparr>,
          st\<lparr>users := saved, leads := leads st @ [new_lead w req s user],
             otpSessions := (otpSessions st)(vr_sessionId req := None)\<rparr>))"
  using assms by (simp add: post_verification_def Let_def split_beta)

lemma show_int_small: "show_int 0 = ''0''" "show_int 1 = ''1''" "show_int 2 = ''2''"
  by (simp_all add: show_int_def show_nat.simps)

lemma findOne_None: "findOne us p = None \<longleftrightarrow> (\<forall>u\<in>set us. u_phoneNumber u \<noteq> p)"
  by (induction us) auto

lemma findOne_Some:
  "findOne us p = Some (i, u) \<Longrightarrow> i < length us \<and> us ! i = u \<and> u_phoneNumber u = p"
  by (induction us arbitrary: i) (auto split: if_splits)

lemma upsert_user_new:
  assumes "findOne us (s_phoneNumber s) = None"
  shows "upsert_user w req s us =
    (us @ [\<lparr>u_name = or_default (or_else (vr_name req) (s_name s)) ''User'',
             u_phoneNumber = s_phoneNumber s,
             u_city = or_default (vr_city req) ''Delhi'',
             u_email = None, u_lastLogin = login_clock w\<rparr>],
     \<lparr>u_name = or_default (or_else (vr_name req) (s_name s)) ''User'',
             u_phoneNumber = s_phoneNumber s,
             u_city = or_default (vr_city req) ''Delhi'',
             u_email = None, u_lastLogin = login_clock w\<rparr>, True, False)"
  using assms by (simp add: upsert_user_def Let_def)

lemma upsert_user_returning:
  assumes "findOne us (s_phoneNumber s) = Some (i, u)"
  shows "\<exists>u'. upsert_user w req s us = (us[i := u'], u', False, True) \<and>
     u_name u' = (case vr_name req of
                    None \<Rightarrow> u_name u
                  | Some n \<Rightarrow> if n \<noteq> [] \<and> n \<noteq> ''User'' \<and> n \<noteq> u_name u then n else u_name u) \<and>
     u_city u' = (case vr_city req of
                    None \<Rightarrow> u_city u
                  | Some c \<Rightarrow> if c \<noteq> [] \<and> c \<noteq> u_city u then c else u_city u) \<and>
     u_lastLogin u' = login_clock w \<and> u_phoneNumber u' = u_phoneNumber u \<and>
     u_email u' = u_email u"
  using assms by (auto simp add: upsert_user_def Let_def split: option.splits)


section \<open>The verify route on the scenarios\<close>

lemma code_req_simps:
  "vr_sessionId (code_req c) = Some ''sess-1''" "vr_otp (code_req c) = Some c"
  "vr_name (code_req c) = None" "vr_city (code_req c) = None"
  by (simp_all add: code_req_def)

lemma truthy_Some: "truthy (Some s) = (s \<noteq> [])"
  by (simp add: truthy_def)

lemma one_session_simps:
  "otpSessions one_session (Some ''sess-1'') = Some asha_session"
  "users one_session = []" "leads one_session = []"
  by (simp_all add: one_session_def)

lemma asha_session_simps:
  "s_createdAt asha_session = 0" "s_attempts asha_session = 0"
  "s_phoneNumber asha_session = ''+919876543210''"
  by (simp_all add: asha_session_def)

lemma now_gateway_says: "now (gateway_says s d t) = t"
  by (simp add: gateway_says_def)

lemma accepting_simps:
  "now (accepting t) = t" "login_clock (accepting t) = t"
  "\<not> findOne_throws (accepting t)" "\<not> user_save_throws (accepting t)"
  "\<not> lead_save_throws (accepting t)" "\<not> token_throws (accepting t)"
  by (simp_all add: accepting_def gateway_says_def)

lemma returning_state_simps:
  "otpSessions returning_state (Some ''sess-1'') = Some asha_session"
  "users returning_state = [asha_user]"
  by (simp_all add: returning_state_def one_session_def)

lemma verifyOTP_accepting_faulty:
  "code \<noteq> [] \<Longrightarrow>
   verifyOTP (faulty a b t) (Some ''sess-1'') (Some code)
     = Verified"
  by (simp add: verifyOTP_def faulty_def accepting_def getApiKey_def gateway_says_def trim_def
        is_space_def Let_def)


section \<open>Expiry\<close>

text \<open>
  A session created at 0 and verified at 600000, exactly ten minutes later, with the code
  the gateway accepts: the expiry test \<open>createdAt < now - 10 min\<close> is false, the gateway
  is asked, and the reply is the 200 of a successful login.
\<close>

theorem verify_at_ten_minutes_counterexample:
  "now (accepting 600000) - s_createdAt asha_session = 10 * 60 * 1000 \<and>
   (case verify_otp (accepting 600000) (code_req ''123456'') one_session of
      (reply, st, calls) \<Rightarrow>
        message reply \<noteq> ''Session has expired. Please request a new OTP.'' \<and>
        status reply = 200 \<and>
        calls = [VERIFY (Some ''sess-1'') (Some ''123456'')])"
proof -
  have w: "\<not> findOne_throws (accepting 600000)" "\<not> user_save_throws (accepting 600000)"
    "\<not> lead_save_throws (accepting 600000)" "\<not> token_throws (accepting 600000)"
    "now (accepting 600000) = 600000"
    by (simp_all add: accepting_def gateway_says_def)
  have "verify_otp (accepting 600000) (code_req ''123456'') one_session =
    (fst (post_verification (accepting 600000) (code_req ''123456'') (asha_session\<lparr>s_verified := True\<rparr>)
            (one_session\<lparr>otpSessions := (otpSessions one_session)(Some ''sess-1'' \<mapsto> asha_session\<lparr>s_verified := True\<rparr>)\<rparr>)),
     snd (post_verification (accepting 600000) (code_req ''123456'') (asha_session\<lparr>s_verified := True\<rparr>)
            (one_session\<lparr>otpSessions := (otpSessions one_session)(Some ''sess-1'' \<mapsto> asha_session\<lparr>s_verified := True\<rparr>)\<rparr>)),
     [VERIFY (Some ''sess-1'') (Some ''123456'')])"
    using verify_otp_accepted [of "code_req ''123456''" one_session asha_session "accepting 600000"]
    by (simp add: code_req_simps truthy_Some one_session_simps asha_session_simps w verifyOTP_accepting)
  then show ?thesis
    by (simp add: post_verification_ok [OF w(1-4)] w asha_session_simps split_beta)
qed

text \<open>
  Claim C5, amended. For a verify call that carries a session id and a code, on a stored
  session: when \<open>now - createdAt\<close> is more than ten minutes, the call deletes the
  session, answers \<open>Session has expired. Please request a new OTP.\<close> whatever the code,
  and does not call \<open>verifyOTP\<close>; when \<open>now - createdAt\<close> is ten minutes or less, the
  reply is never that message.
\<close>

theorem verify_otp_expiry:
  assumes "truthy (vr_sessionId req)" and "truthy (vr_otp req)"
    and "otpSessions st (vr_sessionId req) = Some sess"
  shows "(now w - s_createdAt sess > 10 * 60 * 1000 \<longrightarrow>
            verify_otp w req st =
              (bad_request ''Session has expired. Please request a new OTP.'',
               st\<lparr>otpSessions := (otpSessions st)(vr_sessionId req := None)\<rparr>, []))
       \<and> (now w - s_createdAt sess \<le> 10 * 60 * 1000 \<longrightarrow>
            message (fst (verify_otp w req st)) \<noteq>
              ''Session has expired. Please request a new OTP.'')"
proof (intro conjI impI)
  assume "now w - s_createdAt sess > 10 * 60 * 1000"
  then have "s_createdAt sess < now w - 10 * 60 * 1000" by simp
  from verify_otp_expired [OF assms this] show "verify_otp w req st =
              (bad_request ''Session has expired. Please request a new OTP.'',
               st\<lparr>otpSessions := (otpSessions st)(vr_sessionId req := None)\<rparr>, [])" .
next
  assume "now w - s_createdAt sess \<le> 10 * 60 * 1000"
  then have fresh: "\<not> s_createdAt sess < now w - 10 * 60 * 1000" by simp
  show "message (fst (verify_otp w req st)) \<noteq> ''Session has expired. Please request a new OTP.''"
  proof (cases "3 \<le> s_attempts sess")
    case True
    from verify_otp_exhausted [OF assms fresh True] show ?thesis
      by (simp add: bad_request_def)
  next
    case False
    then have few: "s_attempts sess < 3" by simp
    show ?thesis
    proof (cases "verifyOTP w (vr_sessionId req) (vr_otp req) = Verified")
      case True
      from verify_otp_accepted [OF assms fresh few True]
        post_verification_message [of w req "sess\<lparr>s_verified := True\<rparr>"
          "st\<lparr>otpSessions := (otpSessions st)(vr_sessionId req \<mapsto> sess\<lparr>s_verified := True\<rparr>)\<rparr>"]
      show ?thesis by auto
    next
      case False
      from verify_otp_rejected [OF assms fresh few False] show ?thesis
        by (simp add: bad_request_def)
    qed
  qed
qed

theorem verify_otp_expiry_witness:
  "truthy (vr_sessionId (code_req ''123456'')) \<and> truthy (vr_otp (code_req ''123456'')) \<and>
   otpSessions one_session (vr_sessionId (code_req ''123456'')) = Some asha_session \<and>
   now (rejecting 600001) - s_createdAt asha_session > 10 * 60 * 1000 \<and>
   verify_otp (rejecting 600001) (code_req ''123456'') one_session =
     (bad_request ''Session has expired. Please request a new OTP.'',
      one_session\<lparr>otpSessions := (otpSessions one_session)(Some ''sess-1'' := None)\<rparr>, [])"
proof -
  have h1: "truthy (vr_sessionId (code_req ''123456''))" by (simp add: code_req_simps truthy_Some)
  have h2: "truthy (vr_otp (code_req ''123456''))" by (simp add: code_req_simps truthy_Some)
  have h3: "otpSessions one_session (vr_sessionId (code_req ''123456'')) = Some asha_session"
    by (simp add: code_req_simps one_session_simps)
  have h4: "now (rejecting 600001) - s_createdAt asha_session > 10 * 60 * 1000"
    by (simp add: rejecting_def now_gateway_says asha_session_simps)
  from verify_otp_expiry [OF h1 h2 h3, of "rejecting 600001"] h1 h2 h3 h4 show ?thesis
    by (simp add: code_req_simps)
qed


section \<open>Failed attempts\<close>

text \<open>
  Three wrong codes in a row on a fresh session: the third reply is
  \<open>Invalid OTP. 0 attempts remaining.\<close> and the session is still stored, with
  \<open>attempts = 3\<close>.
\<close>

theorem third_failure_counterexample:
  "(case verify_calls [(rejecting 1000, code_req ''000000''), (rejecting 2000, code_req ''111111''),
                       (rejecting 3000, code_req ''222222'')] one_session of
      (replies, st) \<Rightarrow>
        map (message \<circ> fst) replies =
          [''Invalid OTP. 2 attempts remaining.'', ''Invalid OTP. 1 attempts remaining.'',
           ''Invalid OTP. 0 attempts remaining.''] \<and>
        otpSessions st (Some ''sess-1'') = Some (asha_session\<lparr>s_attempts := 3\<rparr>))"
proof -
  have n: "\<And>t. now (rejecting t) = t" by (simp add: rejecting_def now_gateway_says)
  have "verify_calls [(rejecting 1000, code_req ''000000''), (rejecting 2000, code_req ''111111''),
                       (rejecting 3000, code_req ''222222'')] one_session =
     ([(bad_request ''Invalid OTP. 2 attempts remaining.'', [VERIFY (Some ''sess-1'') (vr_otp (code_req ''000000''))]),
             (bad_request ''Invalid OTP. 1 attempts remaining.'', [VERIFY (Some ''sess-1'') (vr_otp (code_req ''111111''))]),
             (bad_request ''Invalid OTP. 0 attempts remaining.'', [VERIFY (Some ''sess-1'') (vr_otp (code_req ''222222''))])],
            one_session\<lparr>otpSessions := (otpSessions one_session)(Some ''sess-1'' \<mapsto> asha_session\<lparr>s_attempts := 3\<rparr>)\<rparr>)"
    using verify_otp_rejected [of "code_req ''000000''" one_session asha_session "rejecting 1000"]
      verify_otp_rejected [of "code_req ''111111''"
         "one_session\<lparr>otpSessions := (otpSessions one_session)(Some ''sess-1'' \<mapsto> asha_session\<lparr>s_attempts := 1\<rparr>)\<rparr>"
         "asha_session\<lparr>s_attempts := 1\<rparr>" "rejecting 2000"]
      verify_otp_rejected [of "code_req ''222222''"
         "one_session\<lparr>otpSessions := (otpSessions one_session)(Some ''sess-1'' \<mapsto> asha_session\<lparr>s_attempts := 2\<rparr>)\<rparr>"
         "asha_session\<lparr>s_attempts := 2\<rparr>" "rejecting 3000"]
    by (simp add: code_req_simps truthy_Some one_session_simps asha_session_simps n
          verifyOTP_rejecting show_int_small)
  then show ?thesis by (simp add: bad_request_def)
qed

text \<open>
  Claim C1, amended. On a fresh session, three consecutive verify calls that the gateway
  rejects are answered \<open>2\<close>, \<open>1\<close> and \<open>0 attempts remaining\<close> and leave the session
  stored with \<open>attempts = 3\<close>; the session is deleted, with the answer
  \<open>Maximum attempts exceeded. Please request a new OTP.\<close> and no call of
  \<open>verifyOTP\<close>, by the fourth call. Every rejected verify on a session with fewer than
  three attempts adds one to the counter and reports \<open>3 - attempts\<close> remaining, with the
  new counter.
\<close>

theorem three_failures_then_exhausted:
  assumes sid: "truthy sid"
    and sess: "otpSessions st sid = Some sess" "s_attempts sess = 0"
    and c1: "vr_sessionId r1 = sid" "truthy (vr_otp r1)"
            "\<not> s_createdAt sess < now w1 - 10 * 60 * 1000"
            "verifyOTP w1 sid (vr_otp r1) \<noteq> Verified"
    and c2: "vr_sessionId r2 = sid" "truthy (vr_otp r2)"
            "\<not> s_createdAt sess < now w2 - 10 * 60 * 1000"
            "verifyOTP w2 sid (vr_otp r2) \<noteq> Verified"
    and c3: "vr_sessionId r3 = sid" "truthy (vr_otp r3)"
            "\<not> s_createdAt sess < now w3 - 10 * 60 * 1000"
            "verifyOTP w3 sid (vr_otp r3) \<noteq> Verified"
    and c4: "vr_sessionId r4 = sid" "truthy (vr_otp r4)"
            "\<not> s_createdAt sess < now w4 - 10 * 60 * 1000"
  shows "verify_calls [(w1, r1), (w2, r2), (w3, r3)] st =
           ([(bad_request ''Invalid OTP. 2 attempts remaining.'', [VERIFY sid (vr_otp r1)]),
             (bad_request ''Invalid OTP. 1 attempts remaining.'', [VERIFY sid (vr_otp r2)]),
             (bad_request ''Invalid OTP. 0 attempts remaining.'', [VERIFY sid (vr_otp r3)])],
            st\<lparr>otpSessions := (otpSessions st)(sid \<mapsto> sess\<lparr>s_attempts := 3\<rparr>)\<rparr>)
       \<and> verify_calls [(w1, r1), (w2, r2), (w3, r3), (w4, r4)] st =
           ([(bad_request ''Invalid OTP. 2 attempts remaining.'', [VERIFY sid (vr_otp r1)]),
             (bad_request ''Invalid OTP. 1 attempts remaining.'', [VERIFY sid (vr_otp r2)]),
             (bad_request ''Invalid OTP. 0 attempts remaining.'', [VERIFY sid (vr_otp r3)]),
             (bad_request ''Maximum attempts exceeded. Please request a new OTP.'', [])],
            st\<lparr>otpSessions := (otpSessions st)(sid := None)\<rparr>)
       \<and> (\<forall>w req st0 s0.
            truthy (vr_sessionId req) \<and> truthy (vr_otp req) \<and>
            otpSessions st0 (vr_sessionId req) = Some s0 \<and>
            \<not> s_createdAt s0 < now w - 10 * 60 * 1000 \<and> s_attempts s0 < 3 \<and>
            verifyOTP w (vr_sessionId req) (vr_otp req) \<noteq> Verified \<longrightarrow>
            verify_otp w req st0 =
              (bad_request (''Invalid OTP. '' @ show_int (3 - (s_attempts s0 + 1)) @
                            '' attempts remaining.''),
               st0\<lparr>otpSessions := (otpSessions st0)
                      (vr_sessionId req \<mapsto> s0\<lparr>s_attempts := s_attempts s0 + 1\<rparr>)\<rparr>,
               [VERIFY (vr_sessionId req) (vr_otp req)]))"
proof -
  let ?s1 = "sess\<lparr>s_attempts := 1\<rparr>"
  let ?s2 = "sess\<lparr>s_attempts := 2\<rparr>"
  let ?s3 = "sess\<lparr>s_attempts := 3\<rparr>"
  let ?st1 = "st\<lparr>otpSessions := (otpSessions st)(sid \<mapsto> ?s1)\<rparr>"
  let ?st2 = "st\<lparr>otpSessions := (otpSessions st)(sid \<mapsto> ?s2)\<rparr>"
  let ?st3 = "st\<lparr>otpSessions := (otpSessions st)(sid \<mapsto> ?s3)\<rparr>"
  have a1: "verify_otp w1 r1 st =
      (bad_request ''Invalid OTP. 2 attempts remaining.'', ?st1, [VERIFY sid (vr_otp r1)])"
    using verify_otp_rejected [of r1 st sess w1] sid sess c1
    by (simp add: show_int_small)
  have a2: "verify_otp w2 r2 ?st1 =
      (bad_request ''Invalid OTP. 1 attempts remaining.'', ?st2, [VERIFY sid (vr_otp r2)])"
    using verify_otp_rejected [of r2 ?st1 ?s1 w2] sid sess c2
    by (simp add: show_int_small)
  have a3: "verify_otp w3 r3 ?st2 =
      (bad_request ''Invalid OTP. 0 attempts remaining.'', ?st3, [VERIFY sid (vr_otp r3)])"
    using verify_otp_rejected [of r3 ?st2 ?s2 w3] sid sess c3
    by (simp add: show_int_small)
  have a4: "verify_otp w4 r4 ?st3 =
      (bad_request ''Maximum attempts exceeded. Please request a new OTP.'',
       st\<lparr>otpSessions := (otpSessions st)(sid := None)\<rparr>, [])"
    using verify_otp_exhausted [of r4 ?st3 ?s3 w4] sid sess c4
    by simp
  have step: "verify_otp w req st0 =
      (bad_request (''Invalid OTP. '' @ show_int (3 - (s_attempts s0 + 1)) @
                    '' attempts remaining.''),
       st0\<lparr>otpSessions := (otpSessions st0)
              (vr_sessionId req \<mapsto> s0\<lparr>s_attempts := s_attempts s0 + 1\<rparr>)\<rparr>,
       [VERIFY (vr_sessionId req) (vr_otp req)])"
    if "truthy (vr_sessionId req) \<and> truthy (vr_otp req) \<and>
        otpSessions st0 (vr_sessionId req) = Some s0 \<and>
        \<not> s_createdAt s0 < now w - 10 * 60 * 1000 \<and> s_attempts s0 < 3 \<and>
        verifyOTP w (vr_sessionId req) (vr_otp req) \<noteq> Verified" for w req st0 s0
    using that by (intro verify_otp_rejected) simp_all
  have run: "verify_calls [(w1, r1), (w2, r2), (w3, r3)] st =
           ([(bad_request ''Invalid OTP. 2 attempts remaining.'', [VERIFY sid (vr_otp r1)]),
             (bad_request ''Invalid OTP. 1 attempts remaining.'', [VERIFY sid (vr_otp r2)]),
             (bad_request ''Invalid OTP. 0 attempts remaining.'', [VERIFY sid (vr_otp r3)])],
            ?st3)"
    by (simp add: a1 a2 a3)
  have run4: "verify_calls [(w1, r1), (w2, r2), (w3, r3), (w4, r4)] st =
           ([(bad_request ''Invalid OTP. 2 attempts remaining.'', [VERIFY sid (vr_otp r1)]),
             (bad_request ''Invalid OTP. 1 attempts remaining.'', [VERIFY sid (vr_otp r2)]),
             (bad_request ''Invalid OTP. 0 attempts remaining.'', [VERIFY sid (vr_otp r3)]),
             (bad_request ''Maximum attempts exceeded. Please request a new OTP.'', [])],
            st\<lparr>otpSessions := (otpSessions st)(sid := None)\<rparr>)"
    by (simp add: a1 a2 a3 a4)
  from run run4 step show ?thesis by blast
qed

theorem three_failures_then_exhausted_witness:
  "verify_calls [(rejecting 1000, code_req ''000000''), (rejecting 2000, code_req ''111111''),
                 (rejecting 3000, code_req ''222222''), (accepting 4000, code_req ''123456'')] one_session =
     ([(bad_request ''Invalid OTP. 2 attempts remaining.'', [VERIFY (Some ''sess-1'') (Some ''000000'')]),
       (bad_request ''Invalid OTP. 1 attempts remaining.'', [VERIFY (Some ''sess-1'') (Some ''111111'')]),
       (bad_request ''Invalid OTP. 0 attempts remaining.'', [VERIFY (Some ''sess-1'') (Some ''222222'')]),
       (bad_request ''Maximum attempts exceeded. Please request a new OTP.'', [])],
      one_session\<lparr>otpSessions := (otpSessions one_session)(Some ''sess-1'' := None)\<rparr>)"
proof -
  have n: "\<And>t. now (rejecting t) = t" "\<And>t. now (accepting t) = t"
    by (simp_all add: rejecting_def accepting_def now_gateway_says)
  from three_failures_then_exhausted [of "Some ''sess-1''" one_session asha_session
      "code_req ''000000''" "rejecting 1000" "code_req ''111111''" "rejecting 2000"
      "code_req ''222222''" "rejecting 3000" "code_req ''123456''" "accepting 4000"]
  show ?thesis
    by (simp add: code_req_simps truthy_Some one_session_simps asha_session_simps n
          verifyOTP_rejecting)
qed

text \<open>
  Claim C9. On a verify call with a session id and a code, where the session is stored,
  not expired, has fewer than three attempts, and \<open>verifyOTP\<close> does not succeed, the
  session afterwards is the old one with \<open>attempts\<close> one higher and every other field
  as it was, every other key of the store holds what it held, and the users and the leads
  are unchanged.
\<close>

theorem rejected_verify_frame:
  assumes "truthy (vr_sessionId req)" and "truthy (vr_otp req)"
    and "otpSessions st (vr_sessionId req) = Some sess"
    and "\<not> s_createdAt sess < now w - 10 * 60 * 1000"
    and "s_attempts sess < 3"
    and "verifyOTP w (vr_sessionId req) (vr_otp req) \<noteq> Verified"
  shows "(case verify_otp w req st of
      (reply, st', calls) \<Rightarrow>
        (\<exists>sess'. otpSessions st' (vr_sessionId req) = Some sess' \<and>
           s_attempts sess' = s_attempts sess + 1 \<and>
           sess' = sess\<lparr>s_attempts := s_attempts sess + 1\<rparr> \<and>
           s_phoneNumber sess' = s_phoneNumber sess \<and> s_phone sess' = s_phone sess \<and>
           s_name sess' = s_name sess \<and> s_city sess' = s_city sess \<and>
           s_createdAt sess' = s_createdAt sess \<and> s_verified sess' = s_verified sess \<and>
           s_propertyId sess' = s_propertyId sess \<and>
           s_propertyName sess' = s_propertyName sess \<and>
           s_propertyUrl sess' = s_propertyUrl sess \<and> s_otpType sess' = s_otpType sess) \<and>
        (\<forall>k. k \<noteq> vr_sessionId req \<longrightarrow> otpSessions st' k = otpSessions st k) \<and>
        users st' = users st \<and> leads st' = leads st)"
  using verify_otp_rejected [OF assms] by simp

theorem rejected_verify_frame_witness:
  "truthy (vr_sessionId (code_req ''000000'')) \<and> truthy (vr_otp (code_req ''000000'')) \<and>
   otpSessions one_session (vr_sessionId (code_req ''000000'')) = Some asha_session \<and>
   \<not> s_createdAt asha_session < now (rejecting 1000) - 10 * 60 * 1000 \<and>
   s_attempts asha_session < 3 \<and>
   verifyOTP (rejecting 1000) (vr_sessionId (code_req ''000000'')) (vr_otp (code_req ''000000'')) \<noteq> Verified \<and>
   otpSessions (fst (snd (verify_otp (rejecting 1000) (code_req ''000000'') one_session))) (Some ''sess-1'')
     = Some (asha_session\<lparr>s_attempts := 1\<rparr>) \<and>
   otpSessions (fst (snd (verify_otp (rejecting 1000) (code_req ''000000'') one_session))) (Some ''sess-2'')
     = None"
proof -
  have h1: "truthy (vr_sessionId (code_req ''000000''))" by (simp add: code_req_simps truthy_Some)
  have h2: "truthy (vr_otp (code_req ''000000''))" by (simp add: code_req_simps truthy_Some)
  have h3: "otpSessions one_session (vr_sessionId (code_req ''000000'')) = Some asha_session"
    by (simp add: code_req_simps one_session_simps)
  have h4: "\<not> s_createdAt asha_session < now (rejecting 1000) - 10 * 60 * 1000"
    by (simp add: rejecting_def now_gateway_says asha_session_simps)
  have h5: "s_attempts asha_session < 3" by (simp add: asha_session_simps)
  have h6: "verifyOTP (rejecting 1000) (vr_sessionId (code_req ''000000'')) (vr_otp (code_req ''000000'')) \<noteq> Verified"
    by (simp add: code_req_simps verifyOTP_rejecting)
  have o: "otpSessions one_session (Some ''sess-2'') = None" by (simp add: one_session_def)
  from rejected_verify_frame [OF h1 h2 h3 h4 h5 h6] h1 h2 h3 h4 h5 h6 o show ?thesis
    by (auto simp add: code_req_simps asha_session_simps split: prod.splits)
qed


section \<open>After a successful verification\<close>

text \<open>
  The \<open>otpSessions.delete\<close> of the success path comes after \<open>lead.save()\<close> and before
  the tokens are made. When the lookup and the two saves do not throw, the session is
  gone when the handler returns, also when the token step throws.
\<close>

lemma verify_otp_deletes_after_saves:
  assumes "truthy (vr_sessionId req)" and "truthy (vr_otp req)"
    and "otpSessions st (vr_sessionId req) = Some sess"
    and "\<not> s_createdAt sess < now w - 10 * 60 * 1000"
    and "s_attempts sess < 3"
    and "verifyOTP w (vr_sessionId req) (vr_otp req) = Verified"
    and "\<not> findOne_throws w" and "\<not> user_save_throws w" and "\<not> lead_save_throws w"
  shows "otpSessions (fst (snd (verify_otp w req st))) (vr_sessionId req) = None"
  using verify_otp_accepted [OF assms(1-6)] post_verification_all_saved [OF assms(7-9)]
  by simp

lemma token_throw_session_deleted:
  "verifyOTP (faulty False True 1000) (Some ''sess-1'') (Some ''123456'') = Verified \<and>
   token_throws (faulty False True 1000) \<and>
   status (fst (verify_otp (faulty False True 1000) (code_req ''123456'') one_session)) = 500 \<and>
   otpSessions (fst (snd (verify_otp (faulty False True 1000) (code_req ''123456'')
                  one_session))) (Some ''sess-1'') = None"
proof -
  let ?w = "faulty False True 1000"
  have v: "verifyOTP ?w (Some ''sess-1'') (Some ''123456'') = Verified"
    by (simp add: verifyOTP_accepting_faulty)
  have w: "now ?w = 1000" "\<not> findOne_throws ?w" "\<not> user_save_throws ?w" "\<not> lead_save_throws ?w"
    "token_throws ?w"
    by (simp_all add: faulty_def accepting_def gateway_says_def)
  from verify_otp_accepted [of "code_req ''123456''" one_session asha_session ?w] v w
  show ?thesis
    by (simp add: code_req_simps truthy_Some one_session_simps asha_session_simps
          post_verification_def Let_def split_beta failed_500_def)
qed

text \<open>
  Claim C2, at a verify call in which the gateway accepts the code and \<open>user.save()\<close>
  throws. The throw leaves the \<open>try\<close> block before \<open>otpSessions.delete\<close> is reached and
  the \<open>catch\<close> block does not delete: the reply is the 500 of the \<open>catch\<close> block and the
  session is still in the store under its id, marked verified.
\<close>

theorem session_survives_failed_save:
  "verifyOTP (faulty True False 1000) (Some ''sess-1'') (Some ''123456'') = Verified \<and>
   (case verify_otp (faulty True False 1000) (code_req ''123456'') one_session of
      (reply, st, calls) \<Rightarrow>
        status reply = 500 \<and>
        otpSessions st (Some ''sess-1'') = Some (asha_session\<lparr>s_verified := True\<rparr>))"
proof -
  let ?w = "faulty True False 1000"
  have v: "verifyOTP ?w (Some ''sess-1'') (Some ''123456'') = Verified"
    by (simp add: verifyOTP_accepting_faulty)
  have w: "now ?w = 1000" "\<not> findOne_throws ?w" "user_save_throws ?w"
    by (simp_all add: faulty_def accepting_def gateway_says_def)
  from verify_otp_accepted [of "code_req ''123456''" one_session asha_session ?w] v w
  show ?thesis
    by (simp add: code_req_simps truthy_Some one_session_simps asha_session_simps
          post_verification_def Let_def split_beta failed_500_def)
qed

theorem session_survives_failed_save_witness:
  "user_save_throws (faulty True False 1000) \<and>
   status (fst (verify_otp (faulty True False 1000) (code_req ''123456'') one_session)) = 500 \<and>
   otpSessions (fst (snd (verify_otp (faulty True False 1000) (code_req ''123456'')
                  one_session))) (Some ''sess-1'') \<noteq> None"
  using session_survives_failed_save
  by (simp add: split_beta faulty_def)

text \<open>
  A returning user stored with the city Mumbai, verified with the city \<open>Delhi\<close>, the
  fallback city: the stored city becomes Delhi. A first login whose verify request has no
  name, on a session created with the name Asha: the user is created as Asha, not as
  \<open>User\<close>.
\<close>

theorem default_city_overwrites_counterexample:
  "(case verify_otp (accepting 1000) ((code_req ''123456'')\<lparr>vr_city := Some ''Delhi''\<rparr>)
          returning_state of
      (reply, st, calls) \<Rightarrow>
        map u_city (users returning_state) = [''Mumbai''] \<and>
        map u_city (users st) = [''Delhi''])
   \<and> (case verify_otp (accepting 1000) (code_req ''123456'') one_session of
      (reply, st, calls) \<Rightarrow>
        vr_name (code_req ''123456'') = None \<and> map u_name (users st) = [''Asha''])"
proof -
  let ?s = "asha_session\<lparr>s_verified := True\<rparr>"
  let ?r = "(code_req ''123456'')\<lparr>vr_city := Some ''Delhi''\<rparr>"
  have r: "vr_sessionId ?r = Some ''sess-1''" "vr_otp ?r = Some ''123456''"
    "vr_city ?r = Some ''Delhi''" "vr_name ?r = None"
    by (simp_all add: code_req_def)
  have a: "verify_otp (accepting 1000) ?r returning_state =
     (fst (post_verification (accepting 1000) ?r ?s
        (returning_state\<lparr>otpSessions := (otpSessions returning_state)(vr_sessionId ?r \<mapsto> ?s)\<rparr>)),
      snd (post_verification (accepting 1000) ?r ?s
        (returning_state\<lparr>otpSessions := (otpSessions returning_state)(vr_sessionId ?r \<mapsto> ?s)\<rparr>)),
      [VERIFY (vr_sessionId ?r) (vr_otp ?r)])"
    by (rule verify_otp_accepted)
       (simp_all add: r truthy_Some returning_state_simps asha_session_simps accepting_simps
          verifyOTP_accepting)
  have b: "verify_otp (accepting 1000) (code_req ''123456'') one_session =
     (fst (post_verification (accepting 1000) (code_req ''123456'') ?s
        (one_session\<lparr>otpSessions := (otpSessions one_session)(vr_sessionId (code_req ''123456'') \<mapsto> ?s)\<rparr>)),
      snd (post_verification (accepting 1000) (code_req ''123456'') ?s
        (one_session\<lparr>otpSessions := (otpSessions one_session)(vr_sessionId (code_req ''123456'') \<mapsto> ?s)\<rparr>)),
      [VERIFY (vr_sessionId (code_req ''123456'')) (vr_otp (code_req ''123456''))])"
    by (rule verify_otp_accepted)
       (simp_all add: code_req_simps truthy_Some one_session_simps asha_session_simps accepting_simps
          verifyOTP_accepting)
  have ua: "upsert_user (accepting 1000) ?r ?s [asha_user] =
      ([asha_user\<lparr>u_city := ''Delhi'', u_lastLogin := 1000\<rparr>],
       asha_user\<lparr>u_city := ''Delhi'', u_lastLogin := 1000\<rparr>, False, True)"
    by (simp add: upsert_user_def Let_def r asha_session_def asha_user_def accepting_simps)
  have ub: "upsert_user (accepting 1000) (code_req ''123456'') ?s [] =
      ([\<lparr>u_name = ''Asha'', u_phoneNumber = ''+919876543210'', u_city = ''Delhi'',
         u_email = None, u_lastLogin = 1000\<rparr>],
       \<lparr>u_name = ''Asha'', u_phoneNumber = ''+919876543210'', u_city = ''Delhi'',
         u_email = None, u_lastLogin = 1000\<rparr>, True, False)"
    by (simp add: upsert_user_def Let_def code_req_simps asha_session_def accepting_simps
          or_default_def or_else_def truthy_def)
  have c: "u_city asha_user = ''Mumbai''" by (simp add: asha_user_def)
  show ?thesis
    by (simp add: a b post_verification_ok [OF accepting_simps(3-6)] returning_state_simps
          one_session_simps ua ub code_req_simps c)
qed

text \<open>
  Claim C7, amended. After a verification in which nothing throws: if no user has the
  session's phone number, one user is appended, named by the verify request, else by the
  name given when the code was sent, else \<open>User\<close>, with the city of the verify request,
  else \<open>Delhi\<close>, no email and \<open>lastLogin\<close> set to the clock, and the reply says
  \<open>isNew\<close> and not \<open>isReturning\<close>. If a user has it, the first such user is replaced
  in place, no user is added, and the reply says \<open>isReturning\<close> and not \<open>isNew\<close>; the
  name changes exactly when the request gives a non-empty name other than \<open>User\<close> that
  differs from the stored one, the city changes exactly when the request gives a non-empty
  city that differs from the stored one (\<open>Delhi\<close> included), and \<open>lastLogin\<close> is
  always set to the clock.
\<close>

theorem verify_upserts_identity:
  assumes "truthy (vr_sessionId req)" and "truthy (vr_otp req)"
    and "otpSessions st (vr_sessionId req) = Some sess"
    and "\<not> s_createdAt sess < now w - 10 * 60 * 1000"
    and "s_attempts sess < 3"
    and "verifyOTP w (vr_sessionId req) (vr_otp req) = Verified"
    and "\<not> findOne_throws w" and "\<not> user_save_throws w"
    and "\<not> lead_save_throws w" and "\<not> token_throws w"
  shows "(case verify_otp w req st of
      (reply, st', calls) \<Rightarrow>
        ((\<forall>u\<in>set (users st). u_phoneNumber u \<noteq> s_phoneNumber sess) \<longrightarrow>
           users st' = users st @
             [\<lparr>u_name = or_default (or_else (vr_name req) (s_name sess)) ''User'',
               u_phoneNumber = s_phoneNumber sess,
               u_city = or_default (vr_city req) ''Delhi'',
               u_email = None, u_lastLogin = login_clock w\<rparr>] \<and>
           (\<exists>v p. payload reply = LoginPayload v p \<and> uv_isNew v \<and> \<not> uv_isReturning v))
        \<and> (\<forall>i u. findOne (users st) (s_phoneNumber sess) = Some (i, u) \<longrightarrow>
              (\<exists>u'. users st' = (users st)[i := u'] \<and>
                 u_name u' = (case vr_name req of
                                None \<Rightarrow> u_name u
                              | Some n \<Rightarrow> if n \<noteq> [] \<and> n \<noteq> ''User'' \<and> n \<noteq> u_name u
                                          then n else u_name u) \<and>
                 u_city u' = (case vr_city req of
                                None \<Rightarrow> u_city u
                              | Some c \<Rightarrow> if c \<noteq> [] \<and> c \<noteq> u_city u then c else u_city u) \<and>
                 u_lastLogin u' = login_clock w \<and> u_phoneNumber u' = u_phoneNumber u \<and>
                 u_email u' = u_email u) \<and>
              length (users st') = length (users st) \<and>
              (\<exists>v p. payload reply = LoginPayload v p \<and> \<not> uv_isNew v \<and> uv_isReturning v)))"
proof -
  let ?s = "sess\<lparr>s_verified := True\<rparr>"
  let ?st1 = "st\<lparr>otpSessions := (otpSessions st)(vr_sessionId req \<mapsto> ?s)\<rparr>"
  have v: "verify_otp w req st =
     (fst (post_verification w req ?s ?st1), snd (post_verification w req ?s ?st1),
      [VERIFY (vr_sessionId req) (vr_otp req)])"
    by (rule verify_otp_accepted [OF assms(1-6)])
  note pv = post_verification_ok [OF assms(7-10), of req ?s ?st1]
  have new: "users (snd (post_verification w req ?s ?st1)) = users st @
             [\<lparr>u_name = or_default (or_else (vr_name req) (s_name sess)) ''User'',
               u_phoneNumber = s_phoneNumber sess,
               u_city = or_default (vr_city req) ''Delhi'',
               u_email = None, u_lastLogin = login_clock w\<rparr>] \<and>
           (\<exists>v p. payload (fst (post_verification w req ?s ?st1)) = LoginPayload v p \<and>
                  uv_isNew v \<and> \<not> uv_isReturning v)"
    if "\<forall>u\<in>set (users st). u_phoneNumber u \<noteq> s_phoneNumber sess"
  proof -
    from that have "findOne (users st) (s_phoneNumber ?s) = None"
      by (simp add: findOne_None)
    from upsert_user_new [OF this, of w req] show ?thesis
      by (simp add: pv)
  qed
  have old: "(\<exists>u'. users (snd (post_verification w req ?s ?st1)) = (users st)[i := u'] \<and>
                 u_name u' = (case vr_name req of
                                None \<Rightarrow> u_name u
                              | Some n \<Rightarrow> if n \<noteq> [] \<and> n \<noteq> ''User'' \<and> n \<noteq> u_name u
                                          then n else u_name u) \<and>
                 u_city u' = (case vr_city req of
                                None \<Rightarrow> u_city u
                              | Some c \<Rightarrow> if c \<noteq> [] \<and> c \<noteq> u_city u then c else u_city u) \<and>
                 u_lastLogin u' = login_clock w \<and> u_phoneNumber u' = u_phoneNumber u \<and>
                 u_email u' = u_email u) \<and>
              length (users (snd (post_verification w req ?s ?st1))) = length (users st) \<and>
              (\<exists>v p. payload (fst (post_verification w req ?s ?st1)) = LoginPayload v p \<and>
                     \<not> uv_isNew v \<and> uv_isReturning v)"
    if "findOne (users st) (s_phoneNumber sess) = Some (i, u)" for i u
  proof -
    from that have "findOne (users st) (s_phoneNumber ?s) = Some (i, u)" by simp
    from upsert_user_returning [OF this, of w req] obtain u' where
      u: "upsert_user w req ?s (users st) = ((users st)[i := u'], u', False, True)"
      and f: "u_name u' = (case vr_name req of
                                None \<Rightarrow> u_name u
                              | Some n \<Rightarrow> if n \<noteq> [] \<and> n \<noteq> ''User'' \<and> n \<noteq> u_name u
                                          then n else u_name u)"
         "u_city u' = (case vr_city req of
                                None \<Rightarrow> u_city u
                              | Some c \<Rightarrow> if c \<noteq> [] \<and> c \<noteq> u_city u then c else u_city u)"
         "u_lastLogin u' = login_clock w" "u_phoneNumber u' = u_phoneNumber u"
         "u_email u' = u_email u"
      by blast
    have "users (snd (post_verification w req ?s ?st1)) = (users st)[i := u']"
      by (simp add: pv u)
    moreover have "\<exists>v p. payload (fst (post_verification w req ?s ?st1)) = LoginPayload v p \<and>
                     \<not> uv_isNew v \<and> uv_isReturning v"
      by (simp add: pv u)
    ultimately show ?thesis using f by auto
  qed
  from new old show ?thesis
    unfolding v by (simp only: prod.case) blast
qed

theorem verify_upserts_identity_witness:
  "truthy (vr_sessionId (code_req ''123456'')) \<and> truthy (vr_otp (code_req ''123456'')) \<and>
   otpSessions one_session (vr_sessionId (code_req ''123456'')) = Some asha_session \<and>
   verifyOTP (accepting 1000) (vr_sessionId (code_req ''123456'')) (vr_otp (code_req ''123456''))
     = Verified \<and>
   users one_session = [] \<and>
   users (fst (snd (verify_otp (accepting 1000) (code_req ''123456'') one_session))) =
     [\<lparr>u_name = ''Asha'', u_phoneNumber = ''+919876543210'', u_city = ''Delhi'',
       u_email = None, u_lastLogin = 1000\<rparr>]"
proof -
  have h1: "truthy (vr_sessionId (code_req ''123456''))" by (simp add: code_req_simps truthy_Some)
  have h2: "truthy (vr_otp (code_req ''123456''))" by (simp add: code_req_simps truthy_Some)
  have h3: "otpSessions one_session (vr_sessionId (code_req ''123456'')) = Some asha_session"
    by (simp add: code_req_simps one_session_simps)
  have h4: "\<not> s_createdAt asha_session < now (accepting 1000) - 10 * 60 * 1000"
    by (simp add: accepting_simps asha_session_simps)
  have h5: "s_attempts asha_session < 3" by (simp add: asha_session_simps)
  have h6: "verifyOTP (accepting 1000) (vr_sessionId (code_req ''123456'')) (vr_otp (code_req ''123456'')) = Verified"
    by (simp add: code_req_simps verifyOTP_accepting)
  from verify_upserts_identity [OF h1 h2 h3 h4 h5 h6 accepting_simps(3-6)]
    h1 h2 h3 h6
  show ?thesis
    by (simp add: split_beta one_session_simps code_req_simps asha_session_def
          accepting_simps or_default_def or_else_def truthy_def)
qed

end
